theory Spec2Isabelle
  imports Complex_Main "HOL-Library.Word"
begin

unbundle bit_operations_syntax

text \<open>
  The segmentation engine of the Spend Propensity Explorer, \<open>frontend/src/App.tsx\<close>:
  \<open>silhouetteApprox\<close>, \<open>kmeans\<close> with its closures \<open>rngMulberry32\<close>,
  \<open>dist2\<close> and \<open>runOnce\<close>, \<open>suggestElbow\<close>, the selection of the final K in
  \<open>autoCluster\<close>, and \<open>rankCategories\<close> and \<open>recommendForMember\<close>. Functions
  that can throw return \<open>error + 'a\<close>; loops are folds over the index range or
  recursive functions.
\<close>

section \<open>JavaScript values used by the segmentation code\<close>

text \<open>
  A JavaScript number is modelled as a real number, the two infinities or NaN.
  Rounding of doubles, overflow of finite arithmetic to an infinity and the sign of
  zero are abstracted away: finite arithmetic is exact real arithmetic. Counts, indices,
  labels, \<open>K\<close>, \<open>maxIter\<close> and \<open>nInit\<close> are natural numbers, seeds and the
  arguments \<open>memberIndex\<close> and \<open>topK\<close> are integers.
\<close>

datatype jsnum = Fin real | PInf | NInf | NaN

text \<open>What the code can throw: a runtime TypeError (a property read on
  \<open>undefined\<close>) or \<open>new Error(message)\<close>.\<close>

datatype error = TypeError | Error string


fun nneg :: "jsnum \<Rightarrow> jsnum" where
  "nneg (Fin x) = Fin (- x)"
| "nneg PInf = NInf"
| "nneg NInf = PInf"
| "nneg NaN = NaN"

fun nadd :: "jsnum \<Rightarrow> jsnum \<Rightarrow> jsnum" where
  "nadd (Fin x) (Fin y) = Fin (x + y)"
| "nadd NaN v = NaN"
| "nadd v NaN = NaN"
| "nadd PInf NInf = NaN"
| "nadd NInf PInf = NaN"
| "nadd PInf v = PInf"
| "nadd v PInf = PInf"
| "nadd NInf v = NInf"
| "nadd v NInf = NInf"

definition nsub :: "jsnum \<Rightarrow> jsnum \<Rightarrow> jsnum" where
  "nsub a b = nadd a (nneg b)"

fun nmul :: "jsnum \<Rightarrow> jsnum \<Rightarrow> jsnum" where
  "nmul (Fin x) (Fin y) = Fin (x * y)"
| "nmul NaN v = NaN"
| "nmul v NaN = NaN"
| "nmul (Fin x) v = (if x = 0 then NaN else if 0 < x then v else nneg v)"
| "nmul v (Fin y) = (if y = 0 then NaN else if 0 < y then v else nneg v)"
| "nmul PInf v = v"
| "nmul NInf v = nneg v"

fun ndiv :: "jsnum \<Rightarrow> jsnum \<Rightarrow> jsnum" where
  "ndiv (Fin x) (Fin y) =
     (if y \<noteq> 0 then Fin (x / y)
      else if 0 < x then PInf else if x < 0 then NInf else NaN)"
| "ndiv NaN v = NaN"
| "ndiv v NaN = NaN"
| "ndiv (Fin x) v = Fin 0"
| "ndiv v (Fin y) = (if 0 \<le> y then v else nneg v)"
| "ndiv v w = NaN"



text \<open>\<open>a < b\<close> and \<open>a <= b\<close>; every comparison with NaN is false.\<close>

fun nlt :: "jsnum \<Rightarrow> jsnum \<Rightarrow> bool" where
  "nlt (Fin x) (Fin y) = (x < y)"
| "nlt NaN v = False"
| "nlt v NaN = False"
| "nlt v NInf = False"
| "nlt NInf v = True"
| "nlt PInf v = False"
| "nlt v PInf = True"

fun nle :: "jsnum \<Rightarrow> jsnum \<Rightarrow> bool" where
  "nle (Fin x) (Fin y) = (x \<le> y)"
| "nle NaN v = False"
| "nle v NaN = False"
| "nle NInf v = True"
| "nle v PInf = True"
| "nle v w = False"




text \<open>\<open>xs[i]\<close>: reading past the end of an array gives \<open>undefined\<close> (\<open>None\<close>);
  \<open>undefined\<close> used in arithmetic is NaN.\<close>

definition elem :: "'a list \<Rightarrow> nat \<Rightarrow> 'a option" where
  "elem xs i = (if i < length xs then Some (xs ! i) else None)"

definition tonum :: "jsnum option \<Rightarrow> jsnum" where
  "tonum v = (case v of None \<Rightarrow> NaN | Some x \<Rightarrow> x)"

text \<open>A loop whose body may throw: the first exception ends it.\<close>

fun foldE :: "('s \<Rightarrow> 'a \<Rightarrow> error + 's) \<Rightarrow> 's \<Rightarrow> 'a list \<Rightarrow> error + 's" where
  "foldE f s [] = Inr s"
| "foldE f s (x # xs) = (case f s x of Inl e \<Rightarrow> Inl e | Inr s' \<Rightarrow> foldE f s' xs)"

type_synonym Matrix = "jsnum list list"

section \<open>silhouetteApprox\<close>

text \<open>The loop body of both distance closures: \<open>dd = a[d] - b[d]; s += dd*dd\<close>.\<close>

definition sq_step :: "jsnum list \<Rightarrow> jsnum list \<Rightarrow> jsnum \<Rightarrow> nat \<Rightarrow> jsnum" where
  "sq_step a b s d =
     (let dd = nsub (tonum (elem a d)) (tonum (elem b d)) in nadd s (nmul dd dd))"

definition sumsq :: "nat \<Rightarrow> jsnum list \<Rightarrow> jsnum list \<Rightarrow> jsnum" where
  "sumsq D a b = foldl (sq_step a b) (Fin 0) [0..<D]"





subsection \<open>The score in the words of the specification\<close>

text \<open>A matrix of finite numbers, as the data model has it, seen as JavaScript values.\<close>

definition lift :: "real list list \<Rightarrow> Matrix" where
  "lift m = map (map Fin) m"









section \<open>kmeans\<close>

subsection \<open>The seeded generator\<close>

text \<open>
  The closure returned by \<open>rngMulberry32(s)\<close> keeps \<open>s\<close> as a JavaScript number
  that grows by \<open>0x6d2b79f5\<close> at each call (it is never truncated); \<open>Math.imul\<close>,
  \<open>^\<close>, \<open>|\<close> and \<open>>>>\<close> work on its low 32 bits. One call maps the state to the
  new state and the float returned.
\<close>

definition rngMulberry32 :: "int \<Rightarrow> int \<times> real" where
  "rngMulberry32 s =
     (let s' = s + 0x6d2b79f5;
          t0 = (word_of_int s' :: 32 word);
          t1 = (t0 XOR drop_bit 15 t0) * (t0 OR 1);
          t2 = t1 XOR (t1 + (t1 XOR drop_bit 7 t1) * (t1 OR 61))
      in (s', real_of_int (uint (t2 XOR drop_bit 14 t2)) / 4294967296))"

subsection \<open>One run\<close>

text \<open>
  The Fisher-Yates loop \<open>for (i = idx.length - 1; i > 0; i--)\<close>, by the current
  \<open>i\<close>. The draw is in \<open>[0,1)\<close>, so \<open>j \<le> i\<close> and both writes of the swap are
  inside the array.
\<close>

fun shuffle :: "nat \<Rightarrow> int \<Rightarrow> nat list \<Rightarrow> nat list" where
  "shuffle 0 s idx = idx"
| "shuffle (Suc i) s idx =
     (let (s', r) = rngMulberry32 s;
          j = nat \<lfloor>r * real (Suc i + 1)\<rfloor>;
          t = idx ! Suc i
      in shuffle i s' ((idx[Suc i := idx ! j])[j := t]))"

text \<open>The closure \<open>dist2\<close> of \<open>kmeans\<close>.\<close>

definition dist2 :: "nat \<Rightarrow> jsnum list option \<Rightarrow> jsnum list option \<Rightarrow> error + jsnum" where
  "dist2 D a b =
     (if D = 0 then Inr (Fin 0)
      else case a of None \<Rightarrow> Inl TypeError
        | Some a' \<Rightarrow> (case b of None \<Rightarrow> Inl TypeError
            | Some b' \<Rightarrow> Inr (sumsq D a' b')))"

text \<open>
  \<open>centers\<close> is a JavaScript array of arrays. A slot that was never written reads as
  \<open>undefined\<close>, and a write past the end lengthens the array, leaving such slots.
\<close>

type_synonym centers = "jsnum list option list"

definition slot :: "centers \<Rightarrow> nat \<Rightarrow> jsnum list option" where
  "slot cs c = (case elem cs c of None \<Rightarrow> None | Some v \<Rightarrow> v)"

definition js_set :: "centers \<Rightarrow> nat \<Rightarrow> jsnum list \<Rightarrow> centers" where
  "js_set cs c v =
     (if c < length cs then cs[c := Some v]
      else cs @ replicate (c - length cs) None @ [Some v])"

text \<open>
  Assignment: \<open>if (d < bestd) { bestd = d; best = c }\<close> over the centres, then
  \<open>if (labels[i] !== best) { labels[i] = best; changed = true }\<close>. \<open>labels\<close> is
  created with \<open>N\<close> entries and only written at indices below \<open>N\<close>, so it is read
  and written inside its range.
\<close>

definition best_step ::
  "nat \<Rightarrow> jsnum list option \<Rightarrow> centers \<Rightarrow> nat \<times> jsnum \<Rightarrow> nat \<Rightarrow> error + nat \<times> jsnum" where
  "best_step D row cs bb c =
     (case dist2 D row (slot cs c) of
        Inl e \<Rightarrow> Inl e
      | Inr d \<Rightarrow> Inr (if nlt d (snd bb) then (c, d) else bb))"

definition nearest :: "nat \<Rightarrow> nat \<Rightarrow> jsnum list option \<Rightarrow> centers \<Rightarrow> error + nat \<times> jsnum" where
  "nearest D K row cs = foldE (best_step D row cs) (0, PInf) [0..<K]"

definition assign_row ::
  "Matrix \<Rightarrow> nat \<Rightarrow> nat \<Rightarrow> centers \<Rightarrow> nat list \<times> bool \<Rightarrow> nat \<Rightarrow> error + nat list \<times> bool" where
  "assign_row mat D K cs lc i =
     (case nearest D K (elem mat i) cs of
        Inl e \<Rightarrow> Inl e
      | Inr (best, bestd) \<Rightarrow>
          Inr (if fst lc ! i \<noteq> best then ((fst lc)[i := best], True) else lc))"

definition assign ::
  "Matrix \<Rightarrow> nat \<Rightarrow> nat \<Rightarrow> centers \<Rightarrow> nat list \<Rightarrow> error + nat list \<times> bool" where
  "assign mat D K cs labels = foldE (assign_row mat D K cs) (labels, False) [0..<length mat]"

text \<open>
  Update, first loop: \<open>counts[l]++\<close> and \<open>sums[l][d] += row[d]\<close>. For a label \<open>l\<close>
  that is not below \<open>K\<close>, \<open>sums[l]\<close> is \<open>undefined\<close> and the first \<open>sums[l][d]\<close>
  throws; the write \<open>counts[l]\<close> then lands outside the \<open>K\<close> entries that are read.
\<close>

definition add_row :: "nat \<Rightarrow> jsnum list \<Rightarrow> jsnum list \<Rightarrow> jsnum list" where
  "add_row D v row = map (\<lambda>d. nadd (tonum (elem v d)) (tonum (elem row d))) [0..<D]"

definition accumulate ::
  "Matrix \<Rightarrow> nat \<Rightarrow> nat \<Rightarrow> nat list \<Rightarrow> jsnum list list \<times> nat list \<Rightarrow> nat
     \<Rightarrow> error + jsnum list list \<times> nat list" where
  "accumulate mat D K labels sc i =
     (let l = labels ! i; row = mat ! i in
      if l < K then Inr ((fst sc)[l := add_row D (fst sc ! l) row], (snd sc)[l := Suc (snd sc ! l)])
      else if D = 0 then Inr sc
      else Inl TypeError)"

text \<open>Update, second loop: a centroid without rows is skipped (\<open>continue\<close>), the others
  become \<open>sums[c]\<close> divided by \<open>counts[c]\<close>.\<close>

definition recenter :: "jsnum list list \<times> nat list \<Rightarrow> centers \<Rightarrow> nat \<Rightarrow> centers" where
  "recenter sc cs c =
     (if snd sc ! c = 0 then cs
      else js_set cs c (map (\<lambda>x. ndiv x (Fin (real (snd sc ! c)))) (fst sc ! c)))"

definition update :: "Matrix \<Rightarrow> nat \<Rightarrow> nat \<Rightarrow> nat list \<Rightarrow> centers \<Rightarrow> error + centers" where
  "update mat D K labels cs =
     (case foldE (accumulate mat D K labels)
             (replicate K (replicate D (Fin 0)), replicate K 0) [0..<length mat] of
        Inl e \<Rightarrow> Inl e
      | Inr sc \<Rightarrow> Inr (foldl (recenter sc) cs [0..<K]))"

text \<open>
  The loop \<open>while (changed && it < maxIter)\<close>, by the number of iterations that are
  left. It returns the labels, the centres, the last value of \<open>changed\<close> and the number
  of iterations made.
\<close>

fun iterate ::
  "Matrix \<Rightarrow> nat \<Rightarrow> nat \<Rightarrow> nat \<Rightarrow> nat list \<times> centers \<times> bool \<times> nat
     \<Rightarrow> error + nat list \<times> centers \<times> bool \<times> nat" where
  "iterate mat D K 0 st = Inr st"
| "iterate mat D K (Suc n) (labels, cs, changed, it) =
     (if \<not> changed then Inr (labels, cs, changed, it)
      else case assign mat D K cs labels of
        Inl e \<Rightarrow> Inl e
      | Inr (labels', changed') \<Rightarrow>
         (case update mat D K labels' cs of
            Inl e \<Rightarrow> Inl e
          | Inr cs' \<Rightarrow> iterate mat D K n (labels', cs', changed', Suc it)))"

definition inertia_step ::
  "Matrix \<Rightarrow> nat \<Rightarrow> nat list \<Rightarrow> centers \<Rightarrow> jsnum \<Rightarrow> nat \<Rightarrow> error + jsnum" where
  "inertia_step mat D labels cs acc i =
     (case dist2 D (elem mat i) (slot cs (labels ! i)) of
        Inl e \<Rightarrow> Inl e
      | Inr d \<Rightarrow> Inr (nadd acc d))"

text \<open>The object \<open>{labels, centers, inertia}\<close> that a run returns.\<close>

record run =
  run_labels :: "nat list"
  run_centers :: centers
  run_inertia :: jsnum

text \<open>\<open>runOnce(initSeed)\<close>, with the variables \<open>mat\<close>, \<open>K\<close>, \<open>maxIter\<close>, \<open>N\<close> and
  \<open>D\<close> of the enclosing call. The shuffled indices are all below \<open>N\<close>, so \<open>mat[i]\<close>
  is a row.\<close>

definition start_centers :: "Matrix \<Rightarrow> nat \<Rightarrow> int \<Rightarrow> centers" where
  "start_centers mat K initSeed =
     (let N = length mat; idx = shuffle (N - 1) initSeed [0..<N]
      in map (\<lambda>i. Some (mat ! i)) (take K idx))"

definition run_loop ::
  "Matrix \<Rightarrow> nat \<Rightarrow> nat \<Rightarrow> nat \<Rightarrow> int \<Rightarrow> error + nat list \<times> centers \<times> bool \<times> nat" where
  "run_loop mat D K maxIter initSeed =
     iterate mat D K maxIter (replicate (length mat) 0, start_centers mat K initSeed, True, 0)"

definition runOnce :: "Matrix \<Rightarrow> nat \<Rightarrow> nat \<Rightarrow> nat \<Rightarrow> int \<Rightarrow> error + run" where
  "runOnce mat D K maxIter initSeed =
     (case run_loop mat D K maxIter initSeed of
        Inl e \<Rightarrow> Inl e
      | Inr (ls, cs, changed, it) \<Rightarrow>
         (case foldE (inertia_step mat D ls cs) (Fin 0) [0..<length mat] of
            Inl e \<Rightarrow> Inl e
          | Inr v \<Rightarrow> Inr \<lparr>run_labels = ls, run_centers = cs, run_inertia = v\<rparr>))"

subsection \<open>Multi-start\<close>

definition trial_step ::
  "Matrix \<Rightarrow> nat \<Rightarrow> nat \<Rightarrow> nat \<Rightarrow> int \<Rightarrow> run \<Rightarrow> nat \<Rightarrow> error + run" where
  "trial_step mat D K maxIter seed best t =
     (case runOnce mat D K maxIter (seed + int t * 101) of
        Inl e \<Rightarrow> Inl e
      | Inr trial \<Rightarrow> Inr (if nlt (run_inertia trial) (run_inertia best) then trial else best))"

text \<open>\<open>kmeans(mat, K, maxIter, seed, nInit)\<close>; \<open>mat[0].length\<close> throws on an empty
  matrix. The result is the record \<open>{labels, centroids, inertia}\<close>.\<close>

definition kmeans :: "Matrix \<Rightarrow> nat \<Rightarrow> nat \<Rightarrow> int \<Rightarrow> nat \<Rightarrow> error + run" where
  "kmeans mat K maxIter seed nInit =
     (case elem mat 0 of
        None \<Rightarrow> Inl TypeError
      | Some row0 \<Rightarrow>
         (let D = length row0 in
          case runOnce mat D K maxIter seed of
            Inl e \<Rightarrow> Inl e
          | Inr best \<Rightarrow> foldE (trial_step mat D K maxIter seed) best [1..<nInit]))"


section \<open>suggestElbow\<close>






section \<open>The selection of the final K in autoCluster\<close>









section \<open>recommendForMember\<close>

definition CATEGORY_NAMES :: "string list" where
  "CATEGORY_NAMES =
     [''Transportation'', ''Health'', ''LuxuryGoods'', ''Service'', ''Telecommunications'',
      ''Groceries'', ''Clothing'', ''Food&Beverage'', ''PublicUtilities'', ''Others'']"

text \<open>
  \<open>Array.prototype.sort\<close> with a comparator is stable: an element moves behind a later
  one only when the comparator is positive; zero and NaN keep the order. The model is
  the stable insertion sort, which is what every stable sort computes for a consistent
  comparator.
\<close>

fun insert_cmp :: "('a \<Rightarrow> 'a \<Rightarrow> jsnum) \<Rightarrow> 'a \<Rightarrow> 'a list \<Rightarrow> 'a list" where
  "insert_cmp cmp x [] = [x]"
| "insert_cmp cmp x (y # ys) =
     (if nlt (Fin 0) (cmp x y) then y # insert_cmp cmp x ys else x # y # ys)"

definition js_sort :: "('a \<Rightarrow> 'a \<Rightarrow> jsnum) \<Rightarrow> 'a list \<Rightarrow> 'a list" where
  "js_sort cmp xs = foldr (insert_cmp cmp) xs []"

text \<open>An entry \<open>{cat, s}\<close> is a pair; \<open>CATEGORY_NAMES[i]\<close> is \<open>undefined\<close> from the
  eleventh score on.\<close>

type_synonym ranked = "string option \<times> jsnum"

definition rankCategories :: "jsnum list \<Rightarrow> ranked list" where
  "rankCategories scores =
     js_sort (\<lambda>a b. nsub (snd b) (snd a))
       (map (\<lambda>i. (elem CATEGORY_NAMES i, scores ! i)) [0..<length scores])"

text \<open>\<open>xs.slice(0, k)\<close> for an integer \<open>k\<close>; a negative \<open>k\<close> counts from the end.\<close>

definition slice0 :: "'a list \<Rightarrow> int \<Rightarrow> 'a list" where
  "slice0 xs k = (if k < 0 then take (nat (int (length xs) + k)) xs else take (nat k) xs)"

definition recommendForMember :: "Matrix \<Rightarrow> int \<Rightarrow> int \<Rightarrow> jsnum \<Rightarrow> error + ranked list" where
  "recommendForMember mat memberIndex topK minThreshold =
     (if length mat = 0 then Inl (Error ''Matrix is empty'')
      else if length (mat ! 0) \<noteq> 10 then Inl (Error ''Expected 10 columns'')
      else if memberIndex < 0 \<or> int (length mat) \<le> memberIndex
        then Inl (Error ''memberIndex out of range'')
      else let scores = mat ! nat memberIndex;
               ranked = rankCategories scores;
               filtered = filter (\<lambda>r. nle minThreshold (snd r)) ranked;
               chosen = slice0 (if length filtered \<noteq> 0 then filtered else ranked) topK
           in Inr chosen)"


section \<open>Definitions used in the proofs\<close>





section \<open>Properties of silhouetteApprox\<close>






























section \<open>Properties of recommendForMember\<close>













text \<open>
  C7 fails on the code: only the first row is measured. The matrix of a first row of
  10 columns and a second row of one column is accepted, and the recommendation for
  the second member is computed from its single score.
\<close>

theorem recommendForMember_accepts_ragged:
  "recommendForMember (lift [[1, 2, 3, 4, 5, 6, 7, 8, 9, 10], [5]]) 1 3 (Fin 0)
     = Inr [(Some ''Transportation'', Fin 5)]"
  by (simp add: recommendForMember_def lift_def rankCategories_def js_sort_def
      CATEGORY_NAMES_def elem_def slice0_def)

section \<open>Properties of suggestElbow and of the selection\<close>







section \<open>Properties of the update step\<close>

lemma foldE_Cons_Inr: "f s x = Inr s' \<Longrightarrow> foldE f s (x # xs) = foldE f s' xs"
  by simp

lemma accumulate_length:
  assumes "accumulate mat D K labels sc i = Inr sc'"
  shows "length (fst sc') = length (fst sc)" "length (snd sc') = length (snd sc)"
  using assms by (auto simp: accumulate_def Let_def split: if_splits)

lemma accumulate_count_other:
  assumes "accumulate mat D K labels sc i = Inr sc'" "labels ! i \<noteq> c"
  shows "snd sc' ! c = snd sc ! c"
  using assms by (auto simp: accumulate_def Let_def split: if_splits)

lemma accumulate_fold_count:
  assumes "foldE (accumulate mat D K labels) sc is = Inr sc'" "\<forall>i \<in> set is. labels ! i \<noteq> c"
  shows "snd sc' ! c = snd sc ! c"
  using assms
proof (induction "is" arbitrary: sc)
  case Nil
  then show ?case by simp
next
  case (Cons i "is")
  from Cons.prems(1) obtain sc1 where 1: "accumulate mat D K labels sc i = Inr sc1"
    and 2: "foldE (accumulate mat D K labels) sc1 is = Inr sc'"
    by (auto split: sum.splits)
  from Cons.IH [OF 2] Cons.prems(2) have "snd sc' ! c = snd sc1 ! c"
    by simp
  also from 1 Cons.prems(2) have "\<dots> = snd sc ! c"
    by (simp add: accumulate_count_other)
  finally show ?case .
qed

lemma slot_js_set_other: "c' \<noteq> c \<Longrightarrow> slot (js_set cs c' v) c = slot cs c"
  by (auto simp: slot_def js_set_def elem_def nth_append)

lemma recenter_other: "c' \<noteq> c \<Longrightarrow> slot (recenter sc cs c') c = slot cs c"
  by (simp add: recenter_def slot_js_set_other)

lemma recenter_empty: "snd sc ! c = 0 \<Longrightarrow> recenter sc cs c = cs"
  by (simp add: recenter_def)

lemma recenter_fold_empty:
  "snd sc ! c = 0 \<Longrightarrow> slot (foldl (recenter sc) cs xs) c = slot cs c"
proof (induction xs arbitrary: cs)
  case Nil
  show ?case by simp
next
  case (Cons x xs)
  then have "slot (foldl (recenter sc) (recenter sc cs x) xs) c = slot (recenter sc cs x) c"
    by simp
  also have "\<dots> = slot cs c"
    using Cons.prems by (cases "x = c") (simp_all add: recenter_empty recenter_other)
  finally show ?case by simp
qed

text \<open>
  C5. In an update step that returns, a centroid \<open>c < K\<close> to which no row is assigned
  keeps the value it had before the step: the slot \<open>centers[c]\<close> reads the same before
  and after.
\<close>

theorem update_keeps_empty_centroid:
  assumes "update mat D K labels cs = Inr cs'"
    and "length labels = length mat" and "c < K" and "c \<notin> set labels"
  shows "slot cs' c = slot cs c"
proof -
  from assms(1) obtain sc where
    acc: "foldE (accumulate mat D K labels) (replicate K (replicate D (Fin 0)), replicate K 0)
            [0..<length mat] = Inr sc"
    and cs': "cs' = foldl (recenter sc) cs [0..<K]"
    by (auto simp: update_def split: sum.splits)
  have "\<forall>i \<in> set [0..<length mat]. labels ! i \<noteq> c"
    using assms(2,4) by (auto simp: in_set_conv_nth)
  from accumulate_fold_count [OF acc this] assms(3) have "snd sc ! c = 0"
    by simp
  then show ?thesis
    unfolding cs' by (rule recenter_fold_empty)
qed

theorem update_keeps_empty_centroid_witness:
  "update (lift [[0], [0], [9]]) 1 2 [0, 0, 0] [Some [Fin 0], Some [Fin 0]]
      = Inr [Some [Fin 3], Some [Fin 0]]
   \<and> length [0, 0, 0 :: nat] = length (lift [[0], [0], [9]]) \<and> (1 :: nat) < 2
   \<and> 1 \<notin> set [0, 0, 0 :: nat]
   \<and> slot [Some [Fin 3], Some [Fin 0]] 1 = slot [Some [Fin 0], Some [Fin 0]] 1"
proof -
  have u: "update (lift [[0], [0], [9]]) 1 2 [0, 0, 0] [Some [Fin 0], Some [Fin 0]]
      = Inr [Some [Fin 3], Some [Fin 0]]"
    by (simp add: update_def accumulate_def recenter_def js_set_def add_row_def lift_def
        elem_def tonum_def upt_rec numeral_nat)
  have l: "length [0, 0, 0 :: nat] = length (lift [[0], [0], [9]])"
    by (simp add: lift_def)
  have k: "(1 :: nat) < 2" and e: "1 \<notin> set [0, 0, 0 :: nat]"
    by simp_all
  from update_keeps_empty_centroid [OF u l k e] u l k e show ?thesis
    by simp
qed

section \<open>More centroids than rows\<close>

lemma length_shuffle: "length (shuffle i s idx) = length idx"
  by (induction i arbitrary: s idx) (simp_all add: Let_def split: prod.splits)

lemma length_start_centers: "length (start_centers mat K s) = min K (length mat)"
  by (simp add: start_centers_def Let_def length_shuffle min_def)

lemma dist2_error: "dist2 D a b = Inl e \<Longrightarrow> e = TypeError"
  by (auto simp: dist2_def split: if_splits option.splits)

lemma best_step_error: "best_step D row cs bb c = Inl e \<Longrightarrow> e = TypeError"
  by (auto simp: best_step_def split: sum.splits dest: dist2_error)

lemma foldE_error:
  assumes "\<And>s x e. f s x = Inl e \<Longrightarrow> e = TypeError" "foldE f s xs = Inl e"
  shows "e = TypeError"
  using assms(2) by (induction xs arbitrary: s) (auto split: sum.splits dest: assms(1))

lemma foldE_throws:
  assumes "\<And>s x e. f s x = Inl e \<Longrightarrow> e = TypeError" "x \<in> set xs" "\<And>s. f s x = Inl TypeError"
  shows "foldE f s xs = Inl TypeError"
  using assms(2)
proof (induction xs arbitrary: s)
  case Nil
  then show ?case by simp
next
  case (Cons y ys)
  show ?case
  proof (cases "f s y")
    case (Inl e)
    with assms(1) show ?thesis by auto
  next
    case (Inr s')
    with Cons.prems assms(3) [of s] have "x \<in> set ys" by auto
    with Inr Cons.IH show ?thesis by simp
  qed
qed

lemma nearest_throws:
  assumes "0 < D" "length cs < K"
  shows "nearest D K row cs = Inl TypeError"
  unfolding nearest_def
proof (rule foldE_throws)
  show "length cs \<in> set [0..<K]"
    using assms(2) by simp
  show "best_step D row cs bb (length cs) = Inl TypeError" for bb
    using assms(1) by (simp add: best_step_def slot_def elem_def dist2_def split: option.splits)
qed (rule best_step_error)

lemma assign_throws:
  assumes "0 < D" "length cs < K" "mat \<noteq> []"
  shows "assign mat D K cs ls = Inl TypeError"
proof -
  from assms(3) have "[0..<length mat] = 0 # [1..<length mat]"
    by (simp add: upt_rec)
  then show ?thesis
    by (simp add: assign_def assign_row_def nearest_throws [OF assms(1,2)])
qed

lemma run_loop_throws:
  assumes "0 < D" "length mat < K" "mat \<noteq> []" "0 < maxIter"
  shows "run_loop mat D K maxIter s = Inl TypeError"
proof -
  from assms(4) obtain n where n: "maxIter = Suc n"
    by (cases maxIter) simp_all
  from assms(2) have "length (start_centers mat K s) < K"
    by (simp add: length_start_centers)
  then show ?thesis
    by (simp add: run_loop_def n assign_throws [OF assms(1) _ assms(3)])
qed

text \<open>With at least one row of at least one column, more centroids than rows and at
  least one iteration, the first run reads \<open>centers[N]\<close>, which is \<open>undefined\<close>.\<close>

lemma kmeans_throws:
  assumes "mat \<noteq> []" "mat ! 0 \<noteq> []" "length mat < K" "0 < maxIter"
  shows "kmeans mat K maxIter seed nInit = Inl TypeError"
proof -
  from assms(1) have e: "elem mat 0 = Some (mat ! 0)"
    by (simp add: elem_def)
  from assms(2) have "0 < length (mat ! 0)"
    by simp
  from run_loop_throws [OF this assms(3,1,4)] show ?thesis
    by (simp add: kmeans_def e runOnce_def)
qed

text \<open>
  C2 fails on the code. A matrix of one row of 10 columns with \<open>K = 2\<close> and the default
  \<open>maxIter\<close>, seed and \<open>nInit\<close>: the call throws a TypeError instead of returning a
  result with an empty cluster.
\<close>

theorem kmeans_more_clusters_than_rows:
  "kmeans (lift [[1, 2, 3, 4, 5, 6, 7, 8, 9, 10]]) 2 30 12345 10 = Inl TypeError"
  by (rule kmeans_throws) (simp_all add: lift_def)

section \<open>A run on finite numbers returns\<close>























section \<open>Properties of the multi-start\<close>





section \<open>A converged run whose labels are not nearest\<close>

text \<open>
  C6 fails on the code. Three rows are the zero vector and the fourth is
  \<open>(4, 0, \<dots>, 0)\<close>; \<open>K = 2\<close>, seed 33, the default \<open>maxIter = 30\<close> and
  \<open>nInit = 10\<close>. Every start draws two zero rows as centres, so the first assignment
  pass leaves every label at \<open>0\<close>, no label changes and the loop ends after one
  iteration; the update of that iteration still moves centre \<open>0\<close> to the mean
  \<open>(1, 0, \<dots>, 0)\<close>. In the result row \<open>0\<close> has label \<open>0\<close> at squared distance \<open>1\<close>,
  while centre \<open>1\<close> is at squared distance \<open>0\<close>.
\<close>

theorem kmeans_converged_not_nearest:
  "run_loop (lift [[0, 0, 0, 0, 0, 0, 0, 0, 0, 0], [0, 0, 0, 0, 0, 0, 0, 0, 0, 0],
                   [0, 0, 0, 0, 0, 0, 0, 0, 0, 0], [4, 0, 0, 0, 0, 0, 0, 0, 0, 0]]) 10 2 30 33
     = Inr ([0, 0, 0, 0],
            [Some [Fin 1, Fin 0, Fin 0, Fin 0, Fin 0, Fin 0, Fin 0, Fin 0, Fin 0, Fin 0],
             Some [Fin 0, Fin 0, Fin 0, Fin 0, Fin 0, Fin 0, Fin 0, Fin 0, Fin 0, Fin 0]],
            False, 1)
   \<and> kmeans (lift [[0, 0, 0, 0, 0, 0, 0, 0, 0, 0], [0, 0, 0, 0, 0, 0, 0, 0, 0, 0],
                   [0, 0, 0, 0, 0, 0, 0, 0, 0, 0], [4, 0, 0, 0, 0, 0, 0, 0, 0, 0]]) 2 30 33 10
     = Inr \<lparr>run_labels = [0, 0, 0, 0],
            run_centers =
              [Some [Fin 1, Fin 0, Fin 0, Fin 0, Fin 0, Fin 0, Fin 0, Fin 0, Fin 0, Fin 0],
               Some [Fin 0, Fin 0, Fin 0, Fin 0, Fin 0, Fin 0, Fin 0, Fin 0, Fin 0, Fin 0]],
            run_inertia = Fin 12\<rparr>
   \<and> dist2 10 (Some [Fin 0, Fin 0, Fin 0, Fin 0, Fin 0, Fin 0, Fin 0, Fin 0, Fin 0, Fin 0])
          (Some [Fin 1, Fin 0, Fin 0, Fin 0, Fin 0, Fin 0, Fin 0, Fin 0, Fin 0, Fin 0])
     = Inr (Fin 1)
   \<and> dist2 10 (Some [Fin 0, Fin 0, Fin 0, Fin 0, Fin 0, Fin 0, Fin 0, Fin 0, Fin 0, Fin 0])
          (Some [Fin 0, Fin 0, Fin 0, Fin 0, Fin 0, Fin 0, Fin 0, Fin 0, Fin 0, Fin 0])
     = Inr (Fin 0)"
  by code_simp

end
